theory Spec2Isabelle
  imports Complex_Main
begin

section \<open>Text\<close>

text \<open>
  A Python \<open>str\<close> is modelled as a HOL \<open>string\<close>: a list of characters, each a code
  point below 256. The character classes below are the ones Python applies to such code
  points: \<open>str.isspace\<close> (also the class \<open>\s\<close> of module \<open>re\<close>) and the decimal
  digits (the class \<open>\d\<close>), which below 256 are only \<open>0\<close> to \<open>9\<close>.
\<close>

definition py_isspace :: "char \<Rightarrow> bool" where
  "py_isspace c =
     (let n = (of_char c :: nat)
      in (9 \<le> n \<and> n \<le> 13) \<or> (28 \<le> n \<and> n \<le> 32) \<or> n = 133 \<or> n = 160)"

definition py_isdigit :: "char \<Rightarrow> bool" where
  "py_isdigit c = (let n = (of_char c :: nat) in 48 \<le> n \<and> n \<le> 57)"

definition is_ascii_upper :: "char \<Rightarrow> bool" where
  "is_ascii_upper c = (let n = (of_char c :: nat) in 65 \<le> n \<and> n \<le> 90)"

definition is_ascii_lower :: "char \<Rightarrow> bool" where
  "is_ascii_lower c = (let n = (of_char c :: nat) in 97 \<le> n \<and> n \<le> 122)"

definition ascii_lower :: "char \<Rightarrow> char" where
  "ascii_lower c = (if is_ascii_upper c then char_of (of_char c + (32 :: nat)) else c)"

definition ascii_upper :: "char \<Rightarrow> char" where
  "ascii_upper c = (if is_ascii_lower c then char_of (of_char c - (32 :: nat)) else c)"

text \<open>\<open>s.strip()\<close>: leading and trailing whitespace removed.\<close>

definition py_strip :: "string \<Rightarrow> string" where
  "py_strip s = rev (dropWhile py_isspace (rev (dropWhile py_isspace s)))"

text \<open>\<open>sep.join(parts)\<close>.\<close>

fun py_join :: "string \<Rightarrow> string list \<Rightarrow> string" where
  "py_join sep [] = []"
| "py_join sep [x] = x"
| "py_join sep (x # y # ys) = x @ sep @ py_join sep (y # ys)"

text \<open>\<open>s.endswith(suffix)\<close>.\<close>

definition endswith :: "string \<Rightarrow> string \<Rightarrow> bool" where
  "endswith s suffix =
     (length suffix \<le> length s \<and> drop (length s - length suffix) s = suffix)"

section \<open>The document tree\<close>

text \<open>
  The parsed page (a \<open>BeautifulSoup\<close> object) is a tree of tags and strings. A tag has a
  name, attributes and contents; the root is the tag named \<open>[document]\<close>. A node of the
  tree is addressed by its path from the root: the list of child indices leading to it,
  \<open>[]\<close> for the root itself.
\<close>

datatype element =
    Tag string "(string \<times> string) list" "element list"
  | NavigableString string

type_synonym path = "nat list"

fun is_tag :: "element \<Rightarrow> bool" where
  "is_tag (Tag n a cs) = True"
| "is_tag (NavigableString s) = False"

fun tag_name :: "element \<Rightarrow> string" where
  "tag_name (Tag n a cs) = n"
| "tag_name (NavigableString s) = []"

fun contents :: "element \<Rightarrow> element list" where
  "contents (Tag n a cs) = cs"
| "contents (NavigableString s) = []"

text \<open>The strings below an element, in document order.\<close>

fun all_strings :: "element \<Rightarrow> string list" where
  "all_strings (NavigableString s) = [s]"
| "all_strings (Tag n a cs) = concat (map all_strings cs)"

text \<open>\<open>tag.get_text(" ")\<close>: the strings joined by one space, none stripped.\<close>

definition get_text_sep :: "element \<Rightarrow> string" where
  "get_text_sep e = py_join '' '' (all_strings e)"

text \<open>
  \<open>tag.get_text(strip=True)\<close>: every string stripped, the empty ones left out, the rest
  joined with nothing between them.
\<close>

definition get_text_strip :: "element \<Rightarrow> string" where
  "get_text_strip e = concat (filter (\<lambda>s. s \<noteq> []) (map py_strip (all_strings e)))"

text \<open>The element at a path, when the path leads somewhere.\<close>

fun elem_at :: "element \<Rightarrow> path \<Rightarrow> element option" where
  "elem_at e [] = Some e"
| "elem_at e (i # p) =
     (if i < length (contents e) then elem_at (contents e ! i) p else None)"

text \<open>
  The tags of a subtree in document order (depth first, a tag before its contents), each
  with its path; \<open>tags_in\<close> starts at an element located at \<open>p\<close>, \<open>tags_below\<close> runs
  through the contents of the tag at \<open>p\<close> from child index \<open>i\<close> on.
\<close>

fun tags_in :: "path \<Rightarrow> element \<Rightarrow> (path \<times> element) list"
  and tags_below :: "path \<Rightarrow> nat \<Rightarrow> element list \<Rightarrow> (path \<times> element) list" where
  "tags_in p (NavigableString s) = []"
| "tags_in p (Tag n a cs) = (p, Tag n a cs) # tags_below p 0 cs"
| "tags_below p i [] = []"
| "tags_below p i (c # cs) = tags_in (p @ [i]) c @ tags_below p (Suc i) cs"

text \<open>
  \<open>soup.find(predicate)\<close>: the first tag below the root, in document order, on which the
  predicate holds. The root itself is not searched.
\<close>

definition soup_find :: "(element \<Rightarrow> bool) \<Rightarrow> element \<Rightarrow> (path \<times> element) option" where
  "soup_find pred soup = List.find (\<lambda>(p, e). pred e) (tags_below [] 0 (contents soup))"

text \<open>\<open>node.parent\<close>: the root has none.\<close>

definition parent :: "element \<Rightarrow> path \<Rightarrow> (path \<times> element) option" where
  "parent soup p =
     (if p = [] then None
      else (case elem_at soup (butlast p) of
              None \<Rightarrow> None
            | Some e \<Rightarrow> Some (butlast p, e)))"

text \<open>
  \<open>node.find_next_sibling()\<close>: the first tag after the node among its parent's contents;
  strings between them are skipped.
\<close>

fun first_tag_from :: "path \<Rightarrow> nat \<Rightarrow> element list \<Rightarrow> (path \<times> element) option" where
  "first_tag_from q j [] = None"
| "first_tag_from q j (c # cs) =
     (if is_tag c then Some (q @ [j], c) else first_tag_from q (Suc j) cs)"

definition find_next_sibling :: "element \<Rightarrow> path \<Rightarrow> (path \<times> element) option" where
  "find_next_sibling soup p =
     (case parent soup p of
        None \<Rightarrow> None
      | Some (q, e) \<Rightarrow> first_tag_from q (Suc (last p)) (drop (Suc (last p)) (contents e)))"

section \<open>The regular expressions of the source\<close>

text \<open>
  Each pattern of the source is written out as the function it computes. All of them are
  matched without backtracking: each repetition is followed by a character class disjoint
  from its own, so the greedy match is the only one.
\<close>

text \<open>
  \<open>\d+(?:\.\d+)?\<close> at the start of a string: the digits, then a point only when digits
  follow it. The result is the text matched and the rest of the string.
\<close>

definition match_number :: "string \<Rightarrow> (string \<times> string) option" where
  "match_number s =
     (let ds = takeWhile py_isdigit s; r = dropWhile py_isdigit s
      in if ds = [] then None
         else (case r of
                 [] \<Rightarrow> Some (ds, r)
               | c # r' \<Rightarrow>
                   if c = CHR ''.'' \<and> takeWhile py_isdigit r' \<noteq> []
                   then Some (ds @ [c] @ takeWhile py_isdigit r', dropWhile py_isdigit r')
                   else Some (ds, r)))"

text \<open>\<open>(\d+(?:\.\d+)?%?)\<close> at the start of a string: group 1.\<close>

definition match_value_token :: "string \<Rightarrow> string option" where
  "match_value_token s =
     (case match_number s of
        None \<Rightarrow> None
      | Some (num, r) \<Rightarrow>
          (case r of
             [] \<Rightarrow> Some num
           | c # r' \<Rightarrow> if c = CHR ''%'' then Some (num @ [c]) else Some num))"

text \<open>\<open>re.search(r"(\d+(?:\.\d+)?%?)", s)\<close>: group 1 of the leftmost match, if any.\<close>

fun search_value_token :: "string \<Rightarrow> string option" where
  "search_value_token [] = None"
| "search_value_token (c # cs) =
     (case match_value_token (c # cs) of
        Some t \<Rightarrow> Some t
      | None \<Rightarrow> search_value_token cs)"

text \<open>\<open>(-?\d+(?:\.\d+)?)\<close> at the start of a string: the text matched and the rest.\<close>

definition match_signed_number :: "string \<Rightarrow> (string \<times> string) option" where
  "match_signed_number s =
     (case s of
        [] \<Rightarrow> None
      | c # cs \<Rightarrow>
          if c = CHR ''-''
          then (case match_number cs of
                  Some (num, r) \<Rightarrow> Some (c # num, r)
                | None \<Rightarrow> None)
          else match_number s)"

text \<open>\<open>re.search(r"(-?\d+(?:\.\d+)?)", s)\<close>: group 1 of the leftmost match, if any.\<close>

fun search_signed_number :: "string \<Rightarrow> string option" where
  "search_signed_number [] = None"
| "search_signed_number (c # cs) =
     (case match_signed_number (c # cs) of
        Some (t, r) \<Rightarrow> Some t
      | None \<Rightarrow> search_signed_number cs)"

text \<open>
  \<open>$\<close> without the multi-line flag: the end of the string, or the position before a
  line feed that ends the string.
\<close>

definition at_end :: "string \<Rightarrow> bool" where
  "at_end r = (r = [] \<or> r = [CHR 0x0A])"

text \<open>\<open>re.match(r"^(-?\d+(?:\.\d+)?)\s*%?$", s)\<close>: group 1, if the pattern matches.\<close>

definition match_whole_number :: "string \<Rightarrow> string option" where
  "match_whole_number s =
     (case match_signed_number s of
        None \<Rightarrow> None
      | Some (t, r) \<Rightarrow>
          (let r1 = dropWhile py_isspace r
           in if at_end r1 then Some t
              else (case r1 of
                      [] \<Rightarrow> None
                    | c # r2 \<Rightarrow> if c = CHR ''%'' \<and> at_end r2 then Some t else None)))"

text \<open>
  A literal pattern under \<open>re.I\<close>: the letters of the patterns below are ASCII letters,
  which below 256 match themselves in either case and nothing else. The pattern is given
  in lower case.
\<close>

fun ci_prefix :: "string \<Rightarrow> string \<Rightarrow> bool" where
  "ci_prefix [] s = True"
| "ci_prefix (p # ps) [] = False"
| "ci_prefix (p # ps) (c # cs) = (ascii_lower c = p \<and> ci_prefix ps cs)"

fun ci_search :: "string \<Rightarrow> string \<Rightarrow> bool" where
  "ci_search pat [] = ci_prefix pat []"
| "ci_search pat (c # cs) = (ci_prefix pat (c # cs) \<or> ci_search pat cs)"

text \<open>The compiled patterns of the dictionary \<open>candidates\<close>, named after their labels.\<close>

datatype label_re = BallPossession | AverageGoals | CleanSheets | Goals | ShotsOnTarget

text \<open>
  \<open>label_re.search(text)\<close> as a truth value:
  \<^item> \<open>ball possession\<close>
  \<^item> \<open>avg(?:\.|) goals|goals per match|average goals\<close>
  \<^item> \<open>clean sheets?\<close>
  \<^item> \<open>^goals$\<close>
  \<^item> \<open>on target\<close>
\<close>

fun re_search :: "label_re \<Rightarrow> string \<Rightarrow> bool" where
  "re_search BallPossession s = ci_search ''ball possession'' s"
| "re_search AverageGoals s =
     (ci_search ''avg. goals'' s \<or> ci_search ''avg goals'' s
      \<or> ci_search ''goals per match'' s \<or> ci_search ''average goals'' s)"
| "re_search CleanSheets s = (ci_search ''clean sheets'' s \<or> ci_search ''clean sheet'' s)"
| "re_search Goals s = (ci_prefix ''goals'' s \<and> at_end (drop 5 s))"
| "re_search ShotsOnTarget s = ci_search ''on target'' s"

definition candidates :: "(string \<times> label_re) list" where
  "candidates =
     [(''Ball possession'', BallPossession),
      (''Average goals'', AverageGoals),
      (''Clean sheets'', CleanSheets),
      (''Goals'', Goals),
      (''Shots on target'', ShotsOnTarget)]"

section \<open>Label matching and value resolution\<close>

text \<open>
  The predicate handed to \<open>soup.find\<close> at lines 88 and 113:
  \<open>tag.name in ["div", "span", "p", "td", "th"] and tag.get_text(strip=True) and
  label_re.search(tag.get_text(" "))\<close>.
\<close>

definition label_pred :: "label_re \<Rightarrow> element \<Rightarrow> bool" where
  "label_pred lr tag =
     (tag_name tag \<in> set [''div'', ''span'', ''p'', ''td'', ''th'']
      \<and> get_text_strip tag \<noteq> []
      \<and> re_search lr (get_text_sep tag))"

definition find_label :: "label_re \<Rightarrow> element \<Rightarrow> (path \<times> element) option" where
  "find_label lr soup = soup_find (label_pred lr) soup"

text \<open>Python's truth value of \<open>val\<close>, which is \<open>None\<close> or a string.\<close>

fun truthy :: "string option \<Rightarrow> bool" where
  "truthy None = False"
| "truthy (Some s) = (s \<noteq> [])"

text \<open>
  Lines 91 to 105, the resolution of the discovery pass, for the label node at \<open>p\<close>:
  \<open>val\<close> after the sibling step, after the parent-sibling step and after the numeric
  fallback.
\<close>

definition sibling_step :: "element \<Rightarrow> path \<Rightarrow> string option" where
  "sibling_step soup p =
     (case find_next_sibling soup p of
        Some (q, sib) \<Rightarrow> Some (get_text_strip sib)
      | None \<Rightarrow> None)"

definition parent_sibling_step :: "element \<Rightarrow> path \<Rightarrow> string option \<Rightarrow> string option" where
  "parent_sibling_step soup p val =
     (if \<not> truthy val
      then (case parent soup p of
              Some (q, par) \<Rightarrow>
                (case find_next_sibling soup q of
                   Some (q', nextp) \<Rightarrow> Some (get_text_strip nextp)
                 | None \<Rightarrow> val)
            | None \<Rightarrow> val)
      else val)"

definition numeric_step :: "element \<Rightarrow> path \<Rightarrow> element \<Rightarrow> string option \<Rightarrow> string option" where
  "numeric_step soup p label_node val =
     (if \<not> truthy val
      then search_value_token
             (get_text_sep label_node @ '' '' @
              (case parent soup p of Some (q, par) \<Rightarrow> get_text_sep par | None \<Rightarrow> []))
      else val)"

definition resolve_value :: "element \<Rightarrow> path \<Rightarrow> element \<Rightarrow> string option" where
  "resolve_value soup p label_node =
     numeric_step soup p label_node (parent_sibling_step soup p (sibling_step soup p))"

section \<open>Errors, values and the world outside the program\<close>

text \<open>
  The exceptions the modelled code can end with. \<open>FetchError\<close> stands for whatever the
  page fetcher raises (a transport error, a bad HTTP status, a browser timeout);
  \<open>SelectorSyntaxError\<close> is raised by the selector engine on a selector it cannot parse;
  \<open>ValueError\<close> and \<open>OverflowError\<close> come from \<open>time.sleep\<close>.
\<close>

datatype error =
    RuntimeError string
  | AttributeError string
  | FetchError
  | SelectorSyntaxError
  | ValueError
  | OverflowError

text \<open>
  The Python objects that \<open>fetch_raw\<close> and \<open>get_value\<close> can return: \<open>None\<close>, a string,
  the float that \<open>float(token)\<close> makes of a numeric token (the token is kept, its exact
  decimal value is \<open>decimal_value\<close> below), and a function object: \<open>PyFunction x\<close> is the
  function \<open>lambda soup: captured_val\<close> whose \<open>captured_val\<close> is \<open>x\<close>.
\<close>

datatype pyobj = PyNone | PyStr string | PyFloat string | PyFunction element

datatype scraper = RequestsScraper | PlaywrightScraper

text \<open>What \<open>soup.select_one(selector)\<close> can do: raise, find nothing, or find a tag.\<close>

datatype selected = BadSelector | NotFound | Found element

text \<open>
  Everything outside the program: the page each backend is served for a URL at this
  moment (\<open>None\<close> when the fetch fails), the selector engine of the HTML library, and two
  logs: the fetches made so far and the seconds slept so far.
\<close>

record world =
  net :: "scraper \<Rightarrow> string \<Rightarrow> element option"
  select_one :: "string \<Rightarrow> element \<Rightarrow> selected"
  requests :: "(scraper \<times> string) list"
  slept :: real

text \<open>\<open>scraper.fetch_soup(url)\<close> of either backend.\<close>

definition fetch_soup :: "scraper \<Rightarrow> string \<Rightarrow> world \<Rightarrow> (error + element) \<times> world" where
  "fetch_soup sc url w =
     ((case net w sc url of None \<Rightarrow> Inl FetchError | Some soup \<Rightarrow> Inr soup),
      w\<lparr>requests := requests w @ [(sc, url)]\<rparr>)"

text \<open>
  \<open>time.sleep(secs)\<close> of CPython for a finite \<open>secs\<close>: the seconds are converted to a
  64-bit count of nanoseconds, which overflows from \<open>2^63\<close> on; a negative length is
  refused.
\<close>

definition time_sleep :: "real \<Rightarrow> world \<Rightarrow> (error + unit) \<times> world" where
  "time_sleep secs w =
     (if 2 ^ 63 \<le> \<bar>secs\<bar> * 10 ^ 9 then (Inl OverflowError, w)
      else if secs < 0 then (Inl ValueError, w)
      else (Inr (), w\<lparr>slept := slept w + secs\<rparr>))"

section \<open>Extractors\<close>

text \<open>
  The extractors are closures in the source. Here each closure is a value naming the
  lambda it came from together with what that lambda captured, and \<open>call_extractor\<close>
  applies it to an argument:
  \<^item> \<open>BySelector sel\<close> is line 69, \<open>lambda soup: self.extract_by_selector(soup, sel)\<close>;
  \<^item> \<open>BySelectorIn soup sel\<close> is line 164, \<open>lambda _: rs.extract_by_selector(soup, sel)\<close>,
    with the \<open>soup\<close> that \<open>PlaywrightScraper.find_metrics\<close> fetched;
  \<^item> \<open>CapturedVal val\<close> is line 108,
    \<open>(lambda captured_val=val: (lambda soup: captured_val))\<close>, stored as it is;
  \<^item> \<open>LazyExtractor lr\<close> is the function \<open>extractor\<close> of lines 112 to 124.
\<close>

datatype extractor =
    BySelector string
  | BySelectorIn element string
  | CapturedVal string
  | LazyExtractor label_re

text \<open>\<open>extract_by_selector(soup, selector)\<close>, lines 53 to 57.\<close>

definition extract_by_selector :: "world \<Rightarrow> element \<Rightarrow> string \<Rightarrow> error + pyobj" where
  "extract_by_selector w soup selector =
     (case select_one w selector soup of
        BadSelector \<Rightarrow> Inl SelectorSyntaxError
      | NotFound \<Rightarrow> Inr PyNone
      | Found el \<Rightarrow> Inr (PyStr (get_text_strip el)))"

text \<open>The body of the lazy extractor, lines 113 to 124.\<close>

definition lazy_extract :: "label_re \<Rightarrow> element \<Rightarrow> string option" where
  "lazy_extract lr soup =
     (case find_label lr soup of
        None \<Rightarrow> None
      | Some (p, node) \<Rightarrow>
          (case find_next_sibling soup p of
             Some (q, sib) \<Rightarrow> Some (get_text_strip sib)
           | None \<Rightarrow>
               (case (case parent soup p of
                        Some (q, par) \<Rightarrow> find_next_sibling soup q
                      | None \<Rightarrow> None) of
                  Some (q', nextp) \<Rightarrow> Some (get_text_strip nextp)
                | None \<Rightarrow> search_value_token (get_text_sep node))))"

fun of_optional :: "string option \<Rightarrow> pyobj" where
  "of_optional None = PyNone"
| "of_optional (Some s) = PyStr s"

text \<open>
  \<open>extractor(arg)\<close>. Calling the lambda of line 108 with one argument binds
  \<open>captured_val\<close> to that argument and returns the inner lambda.
\<close>

fun call_extractor :: "world \<Rightarrow> extractor \<Rightarrow> element \<Rightarrow> error + pyobj" where
  "call_extractor w (BySelector sel) arg = extract_by_selector w arg sel"
| "call_extractor w (BySelectorIn soup sel) arg = extract_by_selector w soup sel"
| "call_extractor w (CapturedVal val) arg = Inr (PyFunction arg)"
| "call_extractor w (LazyExtractor lr) arg = Inr (of_optional (lazy_extract lr arg))"

section \<open>Discovery: \<open>find_metrics\<close>\<close>

text \<open>
  A Python dictionary keeps its keys in insertion order; \<open>d[k] = v\<close> replaces the value
  of a key that is there and appends a new key otherwise.
\<close>

fun dict_set :: "('k \<times> 'v) list \<Rightarrow> 'k \<Rightarrow> 'v \<Rightarrow> ('k \<times> 'v) list" where
  "dict_set [] k v = [(k, v)]"
| "dict_set ((k', v') # d) k v =
     (if k' = k then (k, v) # d else (k', v') # dict_set d k v)"

text \<open>\<open>{name: make_extractor(sel) for name, sel in metric_selectors.items()}\<close>.\<close>

fun selector_extractors ::
  "(string \<Rightarrow> extractor) \<Rightarrow> (string \<times> string) list \<Rightarrow> (string \<times> extractor) list
   \<Rightarrow> (string \<times> extractor) list" where
  "selector_extractors make_extractor [] d = d"
| "selector_extractors make_extractor ((name, sel) # items) d =
     selector_extractors make_extractor items (dict_set d name (make_extractor sel))"

text \<open>The loop of lines 87 to 126 over the items of \<open>candidates\<close>.\<close>

fun discover :: "element \<Rightarrow> (string \<times> label_re) list \<Rightarrow> (string \<times> extractor) list
   \<Rightarrow> (string \<times> extractor) list" where
  "discover soup [] mapping = mapping"
| "discover soup ((label_text, lr) # rest) mapping =
     discover soup rest
       (case find_label lr soup of
          None \<Rightarrow> mapping
        | Some (p, label_node) \<Rightarrow>
            (let val = resolve_value soup p label_node
             in if truthy val
                then (case val of
                        Some v \<Rightarrow> dict_set mapping label_text (CapturedVal v)
                      | None \<Rightarrow> mapping)
                else dict_set mapping label_text (LazyExtractor lr)))"

text \<open>
  \<open>if metric_selectors:\<close> holds for a dictionary with at least one entry; \<open>None\<close> and the
  empty dictionary both select the heuristic pass.
\<close>

fun given_selectors :: "(string \<times> string) list option \<Rightarrow> (string \<times> string) list option" where
  "given_selectors None = None"
| "given_selectors (Some []) = None"
| "given_selectors (Some (x # xs)) = Some (x # xs)"

definition requests_find_metrics ::
  "string \<Rightarrow> (string \<times> string) list option \<Rightarrow> world
   \<Rightarrow> (error + (string \<times> extractor) list) \<times> world" where
  "requests_find_metrics url metric_selectors w =
     (case given_selectors metric_selectors of
        Some items \<Rightarrow> (Inr (selector_extractors BySelector items []), w)
      | None \<Rightarrow>
          (case fetch_soup RequestsScraper url w of
             (Inl e, w') \<Rightarrow> (Inl e, w')
           | (Inr soup, w') \<Rightarrow> (Inr (discover soup candidates []), w')))"

definition playwright_find_metrics ::
  "string \<Rightarrow> (string \<times> string) list option \<Rightarrow> world
   \<Rightarrow> (error + (string \<times> extractor) list) \<times> world" where
  "playwright_find_metrics url metric_selectors w =
     (case fetch_soup PlaywrightScraper url w of
        (Inl e, w') \<Rightarrow> (Inl e, w')
      | (Inr soup, w') \<Rightarrow>
          (case given_selectors metric_selectors of
             Some items \<Rightarrow> (Inr (selector_extractors (BySelectorIn soup) items []), w')
           | None \<Rightarrow> requests_find_metrics url None w'))"

fun find_metrics ::
  "scraper \<Rightarrow> string \<Rightarrow> (string \<times> string) list option \<Rightarrow> world
   \<Rightarrow> (error + (string \<times> extractor) list) \<times> world" where
  "find_metrics RequestsScraper = requests_find_metrics"
| "find_metrics PlaywrightScraper = playwright_find_metrics"

section \<open>\<open>MetricBase\<close>\<close>

text \<open>A metric class: the class attributes that \<open>MetricBase\<close> and its subclasses carry.\<close>

record metric_cls =
  metric_name :: string
  sofascore_url :: "string option"
  extractor :: "extractor option"
  scraper_instance :: "scraper option"

definition MetricBase :: metric_cls where
  "MetricBase =
     \<lparr>metric_name = ''unnamed'', sofascore_url = None, extractor = None,
      scraper_instance = None\<rparr>"

definition get_scraper :: "metric_cls \<Rightarrow> scraper" where
  "get_scraper cls =
     (case scraper_instance cls of Some sc \<Rightarrow> sc | None \<Rightarrow> RequestsScraper)"

text \<open>\<open>fetch_raw\<close>, lines 192 to 200. \<open>not cls.sofascore_url\<close> holds for \<open>None\<close> and for
  the empty string.\<close>

definition fetch_raw :: "metric_cls \<Rightarrow> world \<Rightarrow> (error + pyobj) \<times> world" where
  "fetch_raw cls w =
     (case sofascore_url cls of
        None \<Rightarrow> (Inl (RuntimeError ''sofascore_url not set on metric class''), w)
      | Some url \<Rightarrow>
          if url = [] then (Inl (RuntimeError ''sofascore_url not set on metric class''), w)
          else (case extractor cls of
                  None \<Rightarrow> (Inl (RuntimeError ''extractor not provided for metric''), w)
                | Some ex \<Rightarrow>
                    (case fetch_soup (get_scraper cls) url w of
                       (Inl e, w') \<Rightarrow> (Inl e, w')
                     | (Inr soup, w') \<Rightarrow> (call_extractor w' ex soup, w'))))"

text \<open>Lines 209 to 222 of \<open>get_value\<close>, for a raw string.\<close>

definition coerce :: "string \<Rightarrow> pyobj" where
  "coerce raw0 =
     (let raw = py_strip raw0
      in case match_whole_number raw of
           Some g \<Rightarrow> (if endswith raw ''%'' then PyFloat g else PyFloat g)
         | None \<Rightarrow>
             (case search_signed_number raw of
                Some g \<Rightarrow> PyFloat g
              | None \<Rightarrow> PyStr raw))"

text \<open>
  \<open>get_value\<close>, lines 203 to 222. A function object is not \<open>None\<close> and has no method
  \<open>strip\<close>, so \<open>raw.strip()\<close> raises on it.
\<close>

definition get_value :: "metric_cls \<Rightarrow> world \<Rightarrow> (error + pyobj) \<times> world" where
  "get_value cls w =
     (case fetch_raw cls w of
        (Inl e, w') \<Rightarrow> (Inl e, w')
      | (Inr PyNone, w') \<Rightarrow> (Inr PyNone, w')
      | (Inr (PyStr raw), w') \<Rightarrow> (Inr (coerce raw), w')
      | (Inr (PyFloat t), w') \<Rightarrow>
          (Inl (AttributeError ''float object has no attribute strip''), w')
      | (Inr (PyFunction x), w') \<Rightarrow>
          (Inl (AttributeError ''function object has no attribute strip''), w'))"

text \<open>\<open>refresh\<close>, lines 225 to 229.\<close>

definition refresh :: "metric_cls \<Rightarrow> real \<Rightarrow> world \<Rightarrow> (error + pyobj) \<times> world" where
  "refresh cls delay_seconds w =
     (if delay_seconds \<noteq> 0
      then (case time_sleep delay_seconds w of
              (Inl e, w') \<Rightarrow> (Inl e, w')
            | (Inr u, w') \<Rightarrow> fetch_raw cls w')
      else fetch_raw cls w)"

section \<open>\<open>MetricMeta\<close>\<close>

text \<open>
  \<open>str.title()\<close> on ASCII text: a letter that follows a letter is put in lower case,
  any other letter in upper case. \<open>prev\<close> tells whether the previous character was a
  letter. Characters outside ASCII are left as they are and count as no letters.
\<close>

definition is_ascii_letter :: "char \<Rightarrow> bool" where
  "is_ascii_letter c = (is_ascii_upper c \<or> is_ascii_lower c)"

fun title_from :: "bool \<Rightarrow> string \<Rightarrow> string" where
  "title_from prev [] = []"
| "title_from prev (c # cs) =
     (if prev then ascii_lower c else ascii_upper c) # title_from (is_ascii_letter c) cs"

definition py_title :: "string \<Rightarrow> string" where
  "py_title s = title_from False s"

text \<open>\<open>re.sub(r"[^0-9a-zA-Z]+", "", s)\<close>.\<close>

definition strip_non_alnum :: "string \<Rightarrow> string" where
  "strip_non_alnum s = filter (\<lambda>c. py_isdigit c \<or> is_ascii_letter c) s"

text \<open>Lines 279 and 280: the name of the generated class.\<close>

definition class_name :: "string \<Rightarrow> string" where
  "class_name name =
     (let stripped = strip_non_alnum (py_title name);
          cn = (if stripped = [] then ''Metric'' else stripped)
      in if endswith cn ''Metric'' then cn else cn @ ''Metric'')"

text \<open>Line 295: the attribute name looked up for the key \<open>k\<close>.\<close>

definition lookup_name :: "string \<Rightarrow> string" where
  "lookup_name k = strip_non_alnum (py_title k) @ ''Metric''"

text \<open>
  An attribute of the class under construction is a generated metric class or something
  else that the class body or a base class defines.
\<close>

datatype attr = MetricClass metric_cls | OtherAttr string

text \<open>
  The namespace handed to \<open>MetricMeta.__new__\<close>: the three entries it reads, and the
  other attributes the new class starts with.
\<close>

record namespace =
  ns_sofascore_url :: "string option"
  ns_scraper :: "scraper option"
  ns_metric_selectors :: "(string \<times> string) list option"
  ns_attrs :: "string \<rightharpoonup> attr"

text \<open>
  The class that \<open>MetricMeta.__new__\<close> returns: its attributes by name, and the
  attribute \<open>_discovered_metrics\<close> once it has been set.
\<close>

record owner_cls =
  attrs :: "string \<rightharpoonup> attr"
  discovered_metrics :: "(string \<times> attr) list option"

text \<open>Both scraper classes define \<open>find_metrics\<close>, which line 271 asks for.\<close>

fun has_find_metrics :: "scraper \<Rightarrow> bool" where
  "has_find_metrics RequestsScraper = True"
| "has_find_metrics PlaywrightScraper = True"

text \<open>
  The loop of lines 277 to 292: one class per discovered metric, set as an attribute of
  the owner under its class name (the docstring of the generated class is left out).
\<close>

fun attach :: "string \<Rightarrow> scraper \<Rightarrow> (string \<times> extractor) list \<Rightarrow> (string \<rightharpoonup> attr)
   \<Rightarrow> (string \<rightharpoonup> attr)" where
  "attach url sc [] a = a"
| "attach url sc ((name, ex) # rest) a =
     attach url sc rest
       (a(class_name name \<mapsto>
            MetricClass \<lparr>metric_name = name, sofascore_url = Some url,
                         extractor = Some ex, scraper_instance = Some sc\<rparr>))"

text \<open>
  Line 295: the dictionary \<open>{k: getattr(cls, ...) for k in discovered.keys()}\<close>;
  \<open>getattr\<close> raises \<open>AttributeError\<close> for a name the class does not have.
\<close>

fun discovered_mapping :: "(string \<rightharpoonup> attr) \<Rightarrow> string list \<Rightarrow> (string \<times> attr) list
   \<Rightarrow> error + (string \<times> attr) list" where
  "discovered_mapping a [] d = Inr d"
| "discovered_mapping a (k # ks) d =
     (case a (lookup_name k) of
        None \<Rightarrow> Inl (AttributeError (lookup_name k))
      | Some v \<Rightarrow> discovered_mapping a ks (dict_set d k v))"

text \<open>\<open>MetricMeta.__new__\<close>, lines 253 to 297.\<close>

definition MetricMeta_new :: "namespace \<Rightarrow> world \<Rightarrow> (error + owner_cls) \<times> world" where
  "MetricMeta_new ns w =
     (let cls = \<lparr>attrs = ns_attrs ns, discovered_metrics = None\<rparr>
      in case ns_sofascore_url ns of
           None \<Rightarrow> (Inr cls, w)
         | Some url \<Rightarrow>
             if url = [] then (Inr cls, w)
             else
               (let sc = (case ns_scraper ns of Some sc \<Rightarrow> sc | None \<Rightarrow> RequestsScraper)
                in if \<not> has_find_metrics sc
                   then (Inl (RuntimeError
                     ''Provided scraper must implement find_metrics(url, metric_selectors)''), w)
                   else
                     (case find_metrics sc url (ns_metric_selectors ns) w of
                        (Inl e, w') \<Rightarrow> (Inl e, w')
                      | (Inr discovered, w') \<Rightarrow>
                          (let a = attach url sc discovered (attrs cls)
                           in case discovered_mapping a (map fst discovered) [] of
                                Inl e \<Rightarrow> (Inl e, w')
                              | Inr d \<Rightarrow>
                                  (Inr \<lparr>attrs = a, discovered_metrics = Some d\<rparr>, w')))))"

text \<open>\<open>getattr(cls, name)\<close> on the finished class.\<close>

definition getattr :: "owner_cls \<Rightarrow> string \<Rightarrow> error + attr" where
  "getattr cls name =
     (case attrs cls name of None \<Rightarrow> Inl (AttributeError name) | Some v \<Rightarrow> Inr v)"

text \<open>The exact value of a numeric token \<open>-?\d+(?:\.\d+)?\<close>, read as a decimal numeral.\<close>

definition digit_val :: "char \<Rightarrow> nat" where
  "digit_val c = of_char c - 48"

definition digits_val :: "string \<Rightarrow> nat" where
  "digits_val ds = foldl (\<lambda>n c. 10 * n + digit_val c) 0 ds"

definition unsigned_value :: "string \<Rightarrow> rat" where
  "unsigned_value t =
     (let ip = takeWhile py_isdigit t; fp = drop (Suc (length ip)) t
      in of_nat (digits_val ip) + of_nat (digits_val fp) / of_nat (10 ^ length fp))"

definition decimal_value :: "string \<Rightarrow> rat" where
  "decimal_value t =
     (case t of
        [] \<Rightarrow> 0
      | c # cs \<Rightarrow> if c = CHR ''-'' then - unsigned_value cs else unsigned_value t)"

section \<open>Sample pages and worlds\<close>

text \<open>
  A selector engine for the samples: it knows type selectors only, and
  \<open>select_one("span")\<close> is the first \<open>span\<close> tag of the document.
\<close>

definition select_by_type :: "string \<Rightarrow> element \<Rightarrow> selected" where
  "select_by_type sel soup =
     (case soup_find (\<lambda>e. tag_name e = sel) soup of
        None \<Rightarrow> NotFound
      | Some (p, e) \<Rightarrow> Found e)"

text \<open>The world in which every fetch is served the page \<open>page\<close>, before any fetch.\<close>

definition serving :: "element \<Rightarrow> world" where
  "serving page =
     \<lparr>net = (\<lambda>sc url. Some page), select_one = select_by_type, requests = [], slept = 0\<rparr>"

text \<open>The world in which every fetch fails.\<close>

definition offline :: world where
  "offline = \<lparr>net = (\<lambda>sc url. None), select_one = select_by_type, requests = [], slept = 0\<rparr>"

text \<open>\<open><ul><li><span>Ball possession</span><span>61%</span></li><li>55%</li></ul>\<close>\<close>

definition possession_page :: element where
  "possession_page =
     Tag ''[document]'' []
       [Tag ''ul'' []
          [Tag ''li'' []
             [Tag ''span'' [] [NavigableString ''Ball possession''],
              Tag ''span'' [] [NavigableString ''61%'']],
           Tag ''li'' [] [NavigableString ''55%'']]]"

text \<open>The same page later, with another reading.\<close>

definition possession_page_later :: element where
  "possession_page_later =
     Tag ''[document]'' []
       [Tag ''ul'' []
          [Tag ''li'' []
             [Tag ''span'' [] [NavigableString ''Ball possession''],
              Tag ''span'' [] [NavigableString ''48%'']],
           Tag ''li'' [] [NavigableString ''52%'']]]"

text \<open>\<open><div>Clean sheets 9</div>\<close>\<close>

definition clean_sheets_page :: element where
  "clean_sheets_page =
     Tag ''[document]'' [] [Tag ''div'' [] [NavigableString ''Clean sheets 9'']]"

text \<open>\<open><li><span>Clean sheets</span> 9</li>\<close>\<close>

definition clean_sheets_inline_page :: element where
  "clean_sheets_inline_page =
     Tag ''[document]'' []
       [Tag ''li'' [] [Tag ''span'' [] [NavigableString ''Clean sheets''],
                      NavigableString '' 9'']]"

text \<open>\<open><li><span>Ball possession</span><i></i></li>\<close>: a label beside an empty tag.\<close>

definition label_with_icon_page :: element where
  "label_with_icon_page =
     Tag ''[document]'' []
       [Tag ''li'' [] [Tag ''span'' [] [NavigableString ''Ball possession''],
                      Tag ''i'' [] []]]"

text \<open>\<open><div>Ball possession</div>\<close>: a label and nothing else.\<close>

definition label_only_page :: element where
  "label_only_page =
     Tag ''[document]'' [] [Tag ''div'' [] [NavigableString ''Ball possession'']]"

text \<open>A metric class as \<open>MetricMeta\<close> generates them, for the samples.\<close>

definition sample_metric :: "string \<Rightarrow> extractor \<Rightarrow> scraper \<Rightarrow> metric_cls" where
  "sample_metric name ex sc =
     \<lparr>metric_name = name, sofascore_url = Some ''https://www.sofascore.com/team/x'',
      extractor = Some ex, scraper_instance = Some sc\<rparr>"

text \<open>A class body that gives the URL and, optionally, a scraper and selectors.\<close>

definition sample_namespace ::
  "scraper option \<Rightarrow> (string \<times> string) list option \<Rightarrow> namespace" where
  "sample_namespace sc sels =
     \<lparr>ns_sofascore_url = Some ''https://www.sofascore.com/team/x'', ns_scraper = sc,
      ns_metric_selectors = sels, ns_attrs = Map.empty\<rparr>"

text \<open>\<open><div><b>61%</b></div>\<close>, and the same page later: \<open><div><b>48%</b></div>\<close>.\<close>

definition reading_page :: element where
  "reading_page = Tag ''[document]'' [] [Tag ''div'' [] [Tag ''b'' [] [NavigableString ''61%'']]]"

definition reading_page_later :: element where
  "reading_page_later =
     Tag ''[document]'' [] [Tag ''div'' [] [Tag ''b'' [] [NavigableString ''48%'']]]"

text \<open>
  The attribute \<open>name\<close> of the class that a class statement with the namespace \<open>ns\<close>
  builds, or the error the class statement ends with.
\<close>

definition built_attr :: "namespace \<Rightarrow> world \<Rightarrow> string \<Rightarrow> error + attr" where
  "built_attr ns w name =
     (case fst (MetricMeta_new ns w) of Inl e \<Rightarrow> Inl e | Inr cls \<Rightarrow> getattr cls name)"

text \<open>The names in \<open>_discovered_metrics\<close> of that class.\<close>

definition built_names :: "namespace \<Rightarrow> world \<Rightarrow> error + string list option" where
  "built_names ns w =
     (case fst (MetricMeta_new ns w) of
        Inl e \<Rightarrow> Inl e
      | Inr cls \<Rightarrow> Inr (map_option (map fst) (discovered_metrics cls)))"

text \<open>
  \<open><ul><li><span>Ball possession</span><i></i></li><li>55%</li></ul>\<close>: the label's
  sibling is an empty tag, the value sits in the parent's sibling.
\<close>

definition icon_then_value_page :: element where
  "icon_then_value_page =
     Tag ''[document]'' []
       [Tag ''ul'' []
          [Tag ''li'' []
             [Tag ''span'' [] [NavigableString ''Ball possession''], Tag ''i'' [] []],
           Tag ''li'' [] [NavigableString ''55%'']]]"

text \<open>What the discovery pass resolves for a category on a page: lines 88 to 105.\<close>

definition discovery_resolution :: "label_re \<Rightarrow> element \<Rightarrow> string option" where
  "discovery_resolution lr soup =
     (case find_label lr soup of
        None \<Rightarrow> None
      | Some (p, label_node) \<Rightarrow> resolve_value soup p label_node)"

text \<open>\<open><div><b>text</b></div>\<close>: a page showing one text in a \<open>b\<close> tag.\<close>

definition page_showing :: "string \<Rightarrow> element" where
  "page_showing txt =
     Tag ''[document]'' [] [Tag ''div'' [] [Tag ''b'' [] [NavigableString txt]]]"

section \<open>The coercion of \<open>get_value\<close> as the specification words it\<close>

text \<open>
  The specification's pattern for a string that is a number as a whole: an optional minus
  sign, digits, an optional decimal fraction, an optional trailing percent sign.
  \<open>spec_number_shape s num\<close> says that \<open>s\<close> has this shape and that \<open>num\<close> is \<open>s\<close> without
  the percent sign.
\<close>

definition spec_number_shape :: "string \<Rightarrow> string \<Rightarrow> bool" where
  "spec_number_shape s num \<longleftrightarrow>
     (\<exists>sign ip fp pct.
        s = sign @ ip @ fp @ pct \<and> num = sign @ ip @ fp
        \<and> (sign = [] \<or> sign = ''-'')
        \<and> ip \<noteq> [] \<and> (\<forall>c \<in> set ip. py_isdigit c)
        \<and> (fp = [] \<or> (\<exists>fd. fp = CHR ''.'' # fd \<and> fd \<noteq> [] \<and> (\<forall>c \<in> set fd. py_isdigit c)))
        \<and> (pct = [] \<or> pct = ''%''))"

text \<open>A string without whitespace at either end.\<close>

definition trimmed :: "string \<Rightarrow> bool" where
  "trimmed t \<longleftrightarrow> (t = [] \<or> (\<not> py_isspace (hd t) \<and> \<not> py_isspace (last t)))"

section \<open>Properties of label matching\<close>

lemma tags_paths:
  "(q, x) \<in> set (tags_in p e) \<Longrightarrow> \<exists>r. q = p @ r \<and> elem_at e r = Some x"
  "(q, x) \<in> set (tags_below p i cs) \<Longrightarrow>
     \<exists>j r. j < length cs \<and> q = p @ (i + j) # r \<and> elem_at (cs ! j) r = Some x"
proof (induction p e and p i cs arbitrary: q x and q x rule: tags_in_tags_below.induct)
  case (1 p s)
  then show ?case by simp
next
  case (2 p n a cs)
  show ?case
  proof (cases "(q, x) = (p, Tag n a cs)")
    case True
    then have "q = p @ [] \<and> elem_at (Tag n a cs) [] = Some x" by simp
    then show ?thesis by blast
  next
    case False
    with "2.prems" have "(q, x) \<in> set (tags_below p 0 cs)" by auto
    from "2.IH"[OF this] obtain j r where
      "j < length cs" "q = p @ (0 + j) # r" "elem_at (cs ! j) r = Some x" by blast
    then have "q = p @ (j # r) \<and> elem_at (Tag n a cs) (j # r) = Some x" by simp
    then show ?thesis by blast
  qed
next
  case (3 p i)
  then show ?case by simp
next
  case (4 p i c cs)
  from "4.prems" consider
    (here) "(q, x) \<in> set (tags_in (p @ [i]) c)" | (later) "(q, x) \<in> set (tags_below p (Suc i) cs)"
    by auto
  then show ?case
  proof cases
    case here
    from "4.IH"(1)[OF this] obtain r where "q = (p @ [i]) @ r" "elem_at c r = Some x" by blast
    then have "0 < length (c # cs) \<and> q = p @ (i + 0) # r \<and> elem_at ((c # cs) ! 0) r = Some x"
      by simp
    then show ?thesis by blast
  next
    case later
    from "4.IH"(2)[OF this] obtain j r where
      "j < length cs" "q = p @ (Suc i + j) # r" "elem_at (cs ! j) r = Some x" by blast
    then have "Suc j < length (c # cs) \<and> q = p @ (i + Suc j) # r
        \<and> elem_at ((c # cs) ! Suc j) r = Some x" by simp
    then show ?thesis by blast
  qed
qed

lemma find_Some_holds: "List.find P xs = Some y \<Longrightarrow> y \<in> set xs \<and> P y"
  by (induction xs) (auto split: if_splits)

text \<open>What \<open>soup.find\<close> returns is a node of the document, below the root, on which the
  predicate holds.\<close>

lemma soup_find_sound:
  assumes "soup_find pred soup = Some (p, e)"
  shows "elem_at soup p = Some e \<and> pred e \<and> p \<noteq> []"
proof -
  from assms have m: "(p, e) \<in> set (tags_below [] 0 (contents soup))" and "pred e"
    using find_Some_holds[of "\<lambda>(p, e). pred e" "tags_below [] 0 (contents soup)" "(p, e)"]
    by (auto simp: soup_find_def)
  from tags_paths(2)[OF m] obtain j r where
    "j < length (contents soup)" "p = j # r" "elem_at (contents soup ! j) r = Some e" by auto
  then have "elem_at soup p = Some e \<and> p \<noteq> []" by simp
  with \<open>pred e\<close> show ?thesis by simp
qed

text \<open>
  Claim C10. Label matching, at discovery (line 88) and in the lazy extractor (line 113),
  goes through \<open>find_label\<close>. A node of the document whose tag name is not one of
  \<open>div\<close>, \<open>span\<close>, \<open>p\<close>, \<open>td\<close>, \<open>th\<close>, or whose stripped text is empty, is never the
  label node that \<open>find_label\<close> returns, for any category and whatever its text is.
\<close>

theorem label_node_is_allowed_tag_with_text:
  assumes "elem_at soup p = Some node"
    and "tag_name node \<notin> set [''div'', ''span'', ''p'', ''td'', ''th'']
         \<or> get_text_strip node = []"
  shows "find_label lr soup \<noteq> Some (p, node')"
proof
  assume "find_label lr soup = Some (p, node')"
  then have "elem_at soup p = Some node'" and "label_pred lr node'"
    using soup_find_sound[of "label_pred lr" soup p node'] by (simp_all add: find_label_def)
  with assms(1) have "node' = node" by simp
  with \<open>label_pred lr node'\<close> assms(2) show False by (auto simp: label_pred_def)
qed

text \<open>
  The theorem at the document \<open><li>Ball possession</li>\<close>: the \<open>li\<close> tag carries a text
  that the rule of the category recognises, and is not chosen.
\<close>

theorem label_node_is_allowed_tag_with_text_witness:
  "elem_at (Tag ''[document]'' [] [Tag ''li'' [] [NavigableString ''Ball possession'']]) [0]
     = Some (Tag ''li'' [] [NavigableString ''Ball possession''])
   \<and> re_search BallPossession
        (get_text_sep (Tag ''li'' [] [NavigableString ''Ball possession'']))
   \<and> find_label BallPossession
        (Tag ''[document]'' [] [Tag ''li'' [] [NavigableString ''Ball possession'']])
       \<noteq> Some ([0], Tag ''li'' [] [NavigableString ''Ball possession''])"
proof -
  have h1: "elem_at (Tag ''[document]'' [] [Tag ''li'' [] [NavigableString ''Ball possession'']]) [0]
     = Some (Tag ''li'' [] [NavigableString ''Ball possession''])" by simp
  have h2: "tag_name (Tag ''li'' [] [NavigableString ''Ball possession''])
      \<notin> set [''div'', ''span'', ''p'', ''td'', ''th'']
     \<or> get_text_strip (Tag ''li'' [] [NavigableString ''Ball possession'']) = []" by simp
  have h3: "re_search BallPossession
      (get_text_sep (Tag ''li'' [] [NavigableString ''Ball possession'']))"
    by code_simp
  from label_node_is_allowed_tag_with_text[OF h1 h2] h1 h3 show ?thesis by blast
qed

section \<open>Properties of \<open>fetch_raw\<close> and \<open>refresh\<close>\<close>

lemma call_extractor_error:
  "call_extractor w ex soup = Inl e \<Longrightarrow> e = SelectorSyntaxError"
  by (cases ex) (auto simp: extract_by_selector_def split: selected.splits)

text \<open>
  Claim C7. \<open>fetch_raw\<close> raises its configuration error (a \<open>RuntimeError\<close>) exactly when
  the URL is not set (\<open>None\<close> or empty, which \<open>not\<close> treats alike) or the extractor is
  absent, and then nothing has been fetched: the world, with its log of requests, is as
  before. When both are present, one fetch is made; \<open>fetch_raw\<close> fails with the
  fetcher's error exactly when the fetch fails, and otherwise its result is the
  extractor applied to the page just fetched.
\<close>

theorem fetch_raw_contract:
  "((\<exists>msg. fst (fetch_raw cls w) = Inl (RuntimeError msg)) \<longleftrightarrow>
      (sofascore_url cls = None \<or> sofascore_url cls = Some [] \<or> extractor cls = None))
   \<and> (sofascore_url cls = None \<or> sofascore_url cls = Some [] \<or> extractor cls = None
        \<longrightarrow> snd (fetch_raw cls w) = w)
   \<and> (\<forall>url ex. sofascore_url cls = Some url \<and> url \<noteq> [] \<and> extractor cls = Some ex \<longrightarrow>
         requests (snd (fetch_raw cls w)) = requests w @ [(get_scraper cls, url)]
         \<and> (fst (fetch_raw cls w) = Inl FetchError \<longleftrightarrow> net w (get_scraper cls) url = None)
         \<and> (\<forall>soup. net w (get_scraper cls) url = Some soup \<longrightarrow>
               fst (fetch_raw cls w) = call_extractor (snd (fetch_raw cls w)) ex soup))"
proof -
  have a: "(\<exists>msg. fst (fetch_raw cls w) = Inl (RuntimeError msg)) \<longleftrightarrow>
      (sofascore_url cls = None \<or> sofascore_url cls = Some [] \<or> extractor cls = None)"
    by (auto simp: fetch_raw_def fetch_soup_def split: option.splits sum.splits
          dest: call_extractor_error)
  have b: "sofascore_url cls = None \<or> sofascore_url cls = Some [] \<or> extractor cls = None
        \<longrightarrow> snd (fetch_raw cls w) = w"
    by (auto simp: fetch_raw_def split: option.splits)
  have c: "requests (snd (fetch_raw cls w)) = requests w @ [(get_scraper cls, url)]
         \<and> (fst (fetch_raw cls w) = Inl FetchError \<longleftrightarrow> net w (get_scraper cls) url = None)
         \<and> (\<forall>soup. net w (get_scraper cls) url = Some soup \<longrightarrow>
               fst (fetch_raw cls w) = call_extractor (snd (fetch_raw cls w)) ex soup)"
    if "sofascore_url cls = Some url" "url \<noteq> []" "extractor cls = Some ex" for url ex
    using that
    by (auto simp: fetch_raw_def fetch_soup_def split: option.splits sum.splits
          dest: call_extractor_error)
  from a b c show ?thesis by blast
qed

text \<open>
  The theorem at three inputs: \<open>MetricBase\<close>, which has neither URL nor extractor; a
  generated class while the network is down; the same class when the page is served.
\<close>

theorem fetch_raw_contract_witness:
  "fetch_raw MetricBase offline
     = (Inl (RuntimeError ''sofascore_url not set on metric class''), offline)
   \<and> fst (fetch_raw (sample_metric ''Clean sheets'' (LazyExtractor CleanSheets) RequestsScraper)
            offline) = Inl FetchError
   \<and> fst (fetch_raw (sample_metric ''Clean sheets'' (LazyExtractor CleanSheets) RequestsScraper)
            (serving clean_sheets_page)) = Inr (PyStr ''9'')"
proof -
  let ?c = "sample_metric ''Clean sheets'' (LazyExtractor CleanSheets) RequestsScraper"
  have h0: "sofascore_url MetricBase = None" by (simp add: MetricBase_def)
  have h1: "sofascore_url ?c = Some ''https://www.sofascore.com/team/x''
      \<and> ''https://www.sofascore.com/team/x'' \<noteq> [] \<and> extractor ?c = Some (LazyExtractor CleanSheets)"
    by (simp add: sample_metric_def)
  have sc: "get_scraper ?c = RequestsScraper" by (simp add: sample_metric_def get_scraper_def)
  have n0: "net offline RequestsScraper ''https://www.sofascore.com/team/x'' = None"
    by (simp add: offline_def)
  have n1: "net (serving clean_sheets_page) RequestsScraper ''https://www.sofascore.com/team/x''
      = Some clean_sheets_page"
    by (simp add: serving_def)
  have ev: "lazy_extract CleanSheets clean_sheets_page = Some ''9''" by code_simp
  have e0: "fst (fetch_raw MetricBase offline)
      = Inl (RuntimeError ''sofascore_url not set on metric class'')"
    by (simp add: fetch_raw_def MetricBase_def)
  from fetch_raw_contract[of MetricBase offline] h0
  have "snd (fetch_raw MetricBase offline) = offline" by blast
  with e0 have p0: "fetch_raw MetricBase offline
      = (Inl (RuntimeError ''sofascore_url not set on metric class''), offline)"
    by (simp add: prod_eq_iff)
  from fetch_raw_contract[of ?c offline] h1 n0 sc
  have p1: "fst (fetch_raw ?c offline) = Inl FetchError" by metis
  from fetch_raw_contract[of ?c "serving clean_sheets_page"] h1 n1 sc
  have "fst (fetch_raw ?c (serving clean_sheets_page))
      = call_extractor (snd (fetch_raw ?c (serving clean_sheets_page)))
          (LazyExtractor CleanSheets) clean_sheets_page" by metis
  with ev have p2: "fst (fetch_raw ?c (serving clean_sheets_page)) = Inr (PyStr ''9'')" by simp
  from p0 p1 p2 show ?thesis by blast
qed

lemma call_extractor_world:
  "select_one w' = select_one w \<Longrightarrow> call_extractor w' ex soup = call_extractor w ex soup"
  by (cases ex) (simp_all add: extract_by_selector_def)

lemma fetch_raw_slept:
  "fetch_raw cls (w\<lparr>slept := x\<rparr>)
     = (fst (fetch_raw cls w), (snd (fetch_raw cls w))\<lparr>slept := x\<rparr>)"
proof -
  have "call_extractor (w\<lparr>slept := x, requests := r\<rparr>) ex soup
      = call_extractor (w\<lparr>requests := r\<rparr>) ex soup" for r ex soup
    by (rule call_extractor_world) simp
  then show ?thesis
    by (simp add: fetch_raw_def fetch_soup_def split: option.splits sum.splits)
qed

text \<open>
  Claim C8, amended. For every delay that \<open>time.sleep\<close> accepts (not negative, and short
  enough to be counted in 64-bit nanoseconds), \<open>refresh\<close> returns what \<open>fetch_raw\<close>
  returns on the same class in the same world, and makes the same requests; the delay is
  only added to the time slept.
\<close>

theorem refresh_returns_fetch_raw:
  assumes "0 \<le> delay" and "delay * 10 ^ 9 < 2 ^ 63"
  shows "fst (refresh cls delay w) = fst (fetch_raw cls w)
       \<and> requests (snd (refresh cls delay w)) = requests (snd (fetch_raw cls w))
       \<and> slept (snd (refresh cls delay w)) = slept w + delay"
proof (cases "delay = 0")
  case True
  have "slept (snd (fetch_raw cls w)) = slept w"
    by (simp add: fetch_raw_def fetch_soup_def split: option.splits sum.splits)
  with True show ?thesis by (simp add: refresh_def)
next
  case False
  with assms have "time_sleep delay w = (Inr (), w\<lparr>slept := slept w + delay\<rparr>)"
    by (simp add: time_sleep_def)
  with False show ?thesis by (simp add: refresh_def fetch_raw_slept)
qed

text \<open>The theorem at a delay of two seconds.\<close>

theorem refresh_returns_fetch_raw_witness:
  "(0::real) \<le> 2 \<and> (2::real) * 10 ^ 9 < 2 ^ 63
   \<and> fst (refresh (sample_metric ''Clean sheets'' (LazyExtractor CleanSheets) RequestsScraper) 2
            (serving clean_sheets_page))
     = fst (fetch_raw (sample_metric ''Clean sheets'' (LazyExtractor CleanSheets) RequestsScraper)
            (serving clean_sheets_page))
   \<and> slept (snd (refresh (sample_metric ''Clean sheets'' (LazyExtractor CleanSheets) RequestsScraper) 2
            (serving clean_sheets_page))) = 2"
proof -
  have h1: "(0::real) \<le> 2" by simp
  have h2: "(2::real) * 10 ^ 9 < 2 ^ 63" by simp
  have "slept (serving clean_sheets_page) = 0" by (simp add: serving_def)
  with refresh_returns_fetch_raw[OF h1 h2] h1 h2 show ?thesis by simp
qed

text \<open>
  Claim C8 as stated, for every delay, fails at the delay \<open>-1\<close>: \<open>time.sleep\<close> raises
  \<open>ValueError\<close> and \<open>refresh\<close> never fetches, while \<open>fetch_raw\<close> returns the value.
\<close>

theorem refresh_negative_delay_counterexample:
  "fst (refresh (sample_metric ''Clean sheets'' (LazyExtractor CleanSheets) RequestsScraper) (- 1)
          (serving clean_sheets_page)) = Inl ValueError
   \<and> fst (fetch_raw (sample_metric ''Clean sheets'' (LazyExtractor CleanSheets) RequestsScraper)
          (serving clean_sheets_page)) = Inr (PyStr ''9'')"
proof -
  have ev: "lazy_extract CleanSheets clean_sheets_page = Some ''9''" by code_simp
  have "fst (refresh (sample_metric ''Clean sheets'' (LazyExtractor CleanSheets) RequestsScraper) (- 1)
          (serving clean_sheets_page)) = Inl ValueError"
    by (simp add: refresh_def time_sleep_def)
  moreover have "fst (fetch_raw (sample_metric ''Clean sheets'' (LazyExtractor CleanSheets) RequestsScraper)
          (serving clean_sheets_page)) = Inr (PyStr ''9'')"
    by (simp add: fetch_raw_def sample_metric_def fetch_soup_def serving_def ev)
  ultimately show ?thesis by simp
qed

section \<open>The extractors at work\<close>

text \<open>
  Claim C1. The claim is that an extractor bound at discovery returns the captured string
  on every tree. On the page
  \<open><ul><li><span>Ball possession</span><span>61%</span></li><li>55%</li></ul>\<close> the
  discovery pass resolves \<open>61%\<close> and stores the lambda of line 108, which is never
  called there. Called by \<open>fetch_raw\<close> with the fetched tree, it returns a function
  object, another one for each tree, and never the string \<open>61%\<close>; \<open>get_value\<close> then
  fails on \<open>raw.strip()\<close>.
\<close>

theorem bound_extractor_returns_function_object:
  "built_attr (sample_namespace None None) (serving possession_page) ''BallPossessionMetric''
     = Inr (MetricClass
         (sample_metric ''Ball possession'' (CapturedVal ''61%'') RequestsScraper))
   \<and> fst (fetch_raw (sample_metric ''Ball possession'' (CapturedVal ''61%'') RequestsScraper)
            (serving possession_page)) = Inr (PyFunction possession_page)
   \<and> fst (fetch_raw (sample_metric ''Ball possession'' (CapturedVal ''61%'') RequestsScraper)
            (serving possession_page_later)) = Inr (PyFunction possession_page_later)
   \<and> fst (get_value (sample_metric ''Ball possession'' (CapturedVal ''61%'') RequestsScraper)
            (serving possession_page))
       = Inl (AttributeError ''function object has no attribute strip'')"
proof -
  have a: "built_attr (sample_namespace None None) (serving possession_page)
      ''BallPossessionMetric''
     = Inr (MetricClass
         (sample_metric ''Ball possession'' (CapturedVal ''61%'') RequestsScraper))"
    by code_simp
  have b: "fst (fetch_raw (sample_metric ''Ball possession'' (CapturedVal ''61%'') RequestsScraper)
            (serving possession_page)) = Inr (PyFunction possession_page)"
    by code_simp
  have c: "fst (fetch_raw (sample_metric ''Ball possession'' (CapturedVal ''61%'') RequestsScraper)
            (serving possession_page_later)) = Inr (PyFunction possession_page_later)"
    by code_simp
  have d: "fst (get_value (sample_metric ''Ball possession'' (CapturedVal ''61%'') RequestsScraper)
            (serving possession_page))
       = Inl (AttributeError ''function object has no attribute strip'')"
    by code_simp
  from a b c d show ?thesis by simp
qed

text \<open>
  Claim C2. The claim is that a selector extractor of either backend reads the tree it is
  given. With the selectors \<open>{"Ball possession": "b"}\<close> and the page
  \<open><div><b>61%</b></div>\<close> at discovery, the extractor that \<open>PlaywrightScraper\<close> builds
  (line 164) holds the discovery page: when the page has become \<open><div><b>48%</b></div>\<close>
  it still returns \<open>61%\<close>, where the extractor of \<open>RequestsScraper\<close> (line 69) returns
  \<open>48%\<close>.
\<close>

theorem playwright_selector_extractor_replays_discovery_page:
  "built_attr (sample_namespace (Some PlaywrightScraper) (Some [(''Ball possession'', ''b'')]))
       (serving reading_page) ''BallPossessionMetric''
     = Inr (MetricClass
         (sample_metric ''Ball possession'' (BySelectorIn reading_page ''b'') PlaywrightScraper))
   \<and> fst (fetch_raw
            (sample_metric ''Ball possession'' (BySelectorIn reading_page ''b'') PlaywrightScraper)
            (serving reading_page_later)) = Inr (PyStr ''61%'')
   \<and> extract_by_selector (serving reading_page_later) reading_page_later ''b''
       = Inr (PyStr ''48%'')
   \<and> built_attr (sample_namespace (Some RequestsScraper) (Some [(''Ball possession'', ''b'')]))
       (serving reading_page) ''BallPossessionMetric''
     = Inr (MetricClass
         (sample_metric ''Ball possession'' (BySelector ''b'') RequestsScraper))
   \<and> fst (fetch_raw (sample_metric ''Ball possession'' (BySelector ''b'') RequestsScraper)
            (serving reading_page_later)) = Inr (PyStr ''48%'')"
proof -
  have a: "built_attr
       (sample_namespace (Some PlaywrightScraper) (Some [(''Ball possession'', ''b'')]))
       (serving reading_page) ''BallPossessionMetric''
     = Inr (MetricClass
         (sample_metric ''Ball possession'' (BySelectorIn reading_page ''b'') PlaywrightScraper))"
    by code_simp
  have b: "fst (fetch_raw
            (sample_metric ''Ball possession'' (BySelectorIn reading_page ''b'') PlaywrightScraper)
            (serving reading_page_later)) = Inr (PyStr ''61%'')"
    by code_simp
  have c: "extract_by_selector (serving reading_page_later) reading_page_later ''b''
       = Inr (PyStr ''48%'')"
    by code_simp
  have d: "built_attr
       (sample_namespace (Some RequestsScraper) (Some [(''Ball possession'', ''b'')]))
       (serving reading_page) ''BallPossessionMetric''
     = Inr (MetricClass
         (sample_metric ''Ball possession'' (BySelector ''b'') RequestsScraper))"
    by code_simp
  have e: "fst (fetch_raw (sample_metric ''Ball possession'' (BySelector ''b'') RequestsScraper)
            (serving reading_page_later)) = Inr (PyStr ''48%'')"
    by code_simp
  from a b c d e show ?thesis by simp
qed

text \<open>
  Claim C4. The claim is that the discovery pass and the lazy extractor follow one chain:
  sibling, parent's sibling, first numeric token of the label's text with its parent's
  text. The discovery pass does: \<open>61%\<close> beside the label wins over \<open>55%\<close> beside its
  parent, and \<open><div>Clean sheets 9</div>\<close> resolves to \<open>9\<close>. The lazy extractor
  (lines 113 to 124) differs in two places. On \<open><li><span>Clean sheets</span> 9</li>\<close>
  it searches the label's own text only and finds nothing, where the chain finds \<open>9\<close> in
  the parent's text. On
  \<open><ul><li><span>Ball possession</span><i></i></li><li>55%</li></ul>\<close> it returns the
  empty text of the sibling, where the chain goes on to \<open>55%\<close>.
\<close>

theorem lazy_extractor_leaves_resolution_chain:
  "discovery_resolution BallPossession possession_page = Some ''61%''
   \<and> discovery_resolution CleanSheets clean_sheets_page = Some ''9''
   \<and> lazy_extract CleanSheets clean_sheets_page = Some ''9''
   \<and> discovery_resolution CleanSheets clean_sheets_inline_page = Some ''9''
   \<and> lazy_extract CleanSheets clean_sheets_inline_page = None
   \<and> discovery_resolution BallPossession icon_then_value_page = Some ''55%''
   \<and> lazy_extract BallPossession icon_then_value_page = Some []"
proof -
  have a: "discovery_resolution BallPossession possession_page = Some ''61%''"
    by code_simp
  have b: "discovery_resolution CleanSheets clean_sheets_page = Some ''9''"
    by code_simp
  have c: "lazy_extract CleanSheets clean_sheets_page = Some ''9''"
    by code_simp
  have d: "discovery_resolution CleanSheets clean_sheets_inline_page = Some ''9''"
    by code_simp
  have e: "lazy_extract CleanSheets clean_sheets_inline_page = None"
    by code_simp
  have f: "discovery_resolution BallPossession icon_then_value_page = Some ''55%''"
    by code_simp
  have g: "lazy_extract BallPossession icon_then_value_page = Some []"
    by code_simp
  from a b c d e f g show ?thesis by simp
qed

text \<open>
  Claim C9. On a page where no category but one has a label, only that category is in
  the result, and no error is raised; on \<open><div>Ball possession</div>\<close> the accessor is
  built with a lazy extractor and \<open>get_value\<close> returns \<open>None\<close>, as the claim says. On
  \<open><li><span>Ball possession</span><i></i></li>\<close> no value resolves at discovery either
  and the accessor is built with a lazy extractor, but its \<open>get_value\<close> on the same page
  returns the empty string, the text of the empty sibling, and not \<open>None\<close>.
\<close>

theorem lazy_accessor_returns_empty_string:
  "built_names (sample_namespace None None) (serving label_only_page)
     = Inr (Some [''Ball possession''])
   \<and> built_attr (sample_namespace None None) (serving label_only_page) ''BallPossessionMetric''
     = Inr (MetricClass
         (sample_metric ''Ball possession'' (LazyExtractor BallPossession) RequestsScraper))
   \<and> fst (get_value
            (sample_metric ''Ball possession'' (LazyExtractor BallPossession) RequestsScraper)
            (serving label_only_page)) = Inr PyNone
   \<and> discovery_resolution BallPossession label_with_icon_page = None
   \<and> built_attr (sample_namespace None None) (serving label_with_icon_page)
       ''BallPossessionMetric''
     = Inr (MetricClass
         (sample_metric ''Ball possession'' (LazyExtractor BallPossession) RequestsScraper))
   \<and> fst (get_value
            (sample_metric ''Ball possession'' (LazyExtractor BallPossession) RequestsScraper)
            (serving label_with_icon_page)) = Inr (PyStr [])"
proof -
  have a: "built_names (sample_namespace None None) (serving label_only_page)
     = Inr (Some [''Ball possession''])"
    by code_simp
  have b: "built_attr (sample_namespace None None) (serving label_only_page)
       ''BallPossessionMetric''
     = Inr (MetricClass
         (sample_metric ''Ball possession'' (LazyExtractor BallPossession) RequestsScraper))"
    by code_simp
  have c: "fst (get_value
            (sample_metric ''Ball possession'' (LazyExtractor BallPossession) RequestsScraper)
            (serving label_only_page)) = Inr PyNone"
    by code_simp
  have d: "discovery_resolution BallPossession label_with_icon_page = None"
    by code_simp
  have e: "built_attr (sample_namespace None None) (serving label_with_icon_page)
       ''BallPossessionMetric''
     = Inr (MetricClass
         (sample_metric ''Ball possession'' (LazyExtractor BallPossession) RequestsScraper))"
    by code_simp
  have f: "fst (get_value
            (sample_metric ''Ball possession'' (LazyExtractor BallPossession) RequestsScraper)
            (serving label_with_icon_page)) = Inr (PyStr [])"
    by code_simp
  from a b c d e f show ?thesis by simp
qed

section \<open>The registry that \<open>MetricMeta\<close> builds\<close>

text \<open>
  Claim C5. The class name of lines 279 and 280 is the title-cased name without its
  non-alphanumeric characters, with \<open>Metric\<close> appended unless it ends with it:
  \<open>Ball possession\<close> gives \<open>BallPossessionMetric\<close> and \<open>Shot metric\<close> gives
  \<open>ShotMetric\<close>. Line 295 looks each name up again but always appends \<open>Metric\<close>: for
  the selectors \<open>{"Shot metric": "b"}\<close> it asks for \<open>ShotMetricMetric\<close>, which does not
  exist, and the class statement ends with \<open>AttributeError\<close> instead of a mapping entry
  for the name.
\<close>

theorem discovered_mapping_misses_metric_suffix:
  "class_name ''Ball possession'' = ''BallPossessionMetric''
   \<and> class_name ''Shot metric'' = ''ShotMetric''
   \<and> lookup_name ''Shot metric'' = ''ShotMetricMetric''
   \<and> built_names (sample_namespace None (Some [(''Shot metric'', ''b'')])) (serving reading_page)
       = Inl (AttributeError ''ShotMetricMetric'')"
proof -
  have a: "class_name ''Ball possession'' = ''BallPossessionMetric''"
    by code_simp
  have b: "class_name ''Shot metric'' = ''ShotMetric''"
    by code_simp
  have c: "lookup_name ''Shot metric'' = ''ShotMetricMetric''"
    by code_simp
  have d: "built_names (sample_namespace None (Some [(''Shot metric'', ''b'')]))
       (serving reading_page) = Inl (AttributeError ''ShotMetricMetric'')"
    by code_simp
  from a b c d show ?thesis by simp
qed

text \<open>
  Claim C6. The names \<open>Ball possession\<close> and \<open>ball-possession\<close> both give
  \<open>BallPossessionMetric\<close>; the class statement succeeds and the class under that name is
  the one of the later entry, as the claim says. The names \<open>Shot metric\<close> and
  \<open>shot  metric\<close> both give \<open>ShotMetric\<close>, and there the class statement ends with the
  \<open>AttributeError\<close> of line 295.
\<close>

theorem colliding_names_with_metric_suffix_crash:
  "class_name ''Ball possession'' = class_name ''ball-possession''
   \<and> built_attr
       (sample_namespace None (Some [(''Ball possession'', ''b''), (''ball-possession'', ''div'')]))
       (serving reading_page) ''BallPossessionMetric''
     = Inr (MetricClass (sample_metric ''ball-possession'' (BySelector ''div'') RequestsScraper))
   \<and> class_name ''Shot metric'' = class_name ''shot  metric''
   \<and> built_names
       (sample_namespace None (Some [(''Shot metric'', ''b''), (''shot  metric'', ''div'')]))
       (serving reading_page)
     = Inl (AttributeError ''ShotMetricMetric'')"
proof -
  have a: "class_name ''Ball possession'' = class_name ''ball-possession''"
    by code_simp
  have b: "built_attr
       (sample_namespace None (Some [(''Ball possession'', ''b''), (''ball-possession'', ''div'')]))
       (serving reading_page) ''BallPossessionMetric''
     = Inr (MetricClass (sample_metric ''ball-possession'' (BySelector ''div'') RequestsScraper))"
    by code_simp
  have c: "class_name ''Shot metric'' = class_name ''shot  metric''"
    by code_simp
  have d: "built_names
       (sample_namespace None (Some [(''Shot metric'', ''b''), (''shot  metric'', ''div'')]))
       (serving reading_page)
     = Inl (AttributeError ''ShotMetricMetric'')"
    by code_simp
  from a b c d show ?thesis by simp
qed

section \<open>Properties of \<open>get_value\<close>\<close>

text \<open>Every string that an extractor returns is free of whitespace at both ends, so
  \<open>raw.strip()\<close> leaves it as it is.\<close>

lemma strip_trimmed: "trimmed t \<Longrightarrow> py_strip t = t"
proof (cases "t = []")
  case True
  then show ?thesis by (simp add: py_strip_def)
next
  case False
  assume "trimmed t"
  with False have h: "\<not> py_isspace (hd t)" and l: "\<not> py_isspace (last t)"
    by (simp_all add: trimmed_def)
  from False h have a: "dropWhile py_isspace t = t" by (cases t) simp_all
  from False l have "dropWhile py_isspace (rev t) = rev t"
    by (cases "rev t") (simp_all add: hd_rev[symmetric])
  with a show ?thesis by (simp add: py_strip_def)
qed

lemma dropWhile_last_keeps:
  "dropWhile P xs \<noteq> [] \<Longrightarrow> last (dropWhile P xs) = last xs"
  by (induction xs) (auto split: if_splits)

lemma trimmed_strip: "trimmed (py_strip s)"
proof (cases "py_strip s = []")
  case True
  then show ?thesis by (simp add: trimmed_def)
next
  case False
  define u where "u = dropWhile py_isspace s"
  define v where "v = dropWhile py_isspace (rev u)"
  have ps: "py_strip s = rev v" by (simp add: py_strip_def u_def v_def)
  with False have vne: "v \<noteq> []" by simp
  then have "\<not> py_isspace (hd v)" unfolding v_def by (rule hd_dropWhile)
  then have l: "\<not> py_isspace (last (rev v))" using vne by (simp add: last_rev)
  from vne have "last v = last (rev u)" unfolding v_def by (rule dropWhile_last_keeps)
  moreover from vne have une: "u \<noteq> []" by (auto simp: v_def)
  ultimately have "last v = hd u" by (simp add: last_rev)
  moreover from une have "\<not> py_isspace (hd u)" unfolding u_def by (rule hd_dropWhile)
  ultimately have "\<not> py_isspace (hd (rev v))" using vne by (simp add: hd_rev)
  with l ps show ?thesis by (simp add: trimmed_def)
qed

lemma trimmed_append:
  "trimmed a \<Longrightarrow> trimmed b \<Longrightarrow> trimmed (a @ b)"
  by (cases "a = []"; cases "b = []") (auto simp: trimmed_def)

lemma trimmed_concat: "(\<forall>s \<in> set xs. trimmed s) \<Longrightarrow> trimmed (concat xs)"
proof (induction xs)
  case Nil
  then show ?case by (simp add: trimmed_def)
next
  case (Cons a xs)
  then show ?case by (simp add: trimmed_append)
qed

lemma get_text_strip_trimmed: "trimmed (get_text_strip e)"
  unfolding get_text_strip_def
  by (rule trimmed_concat) (auto simp: trimmed_strip)

lemma digit_not_space: "py_isdigit c \<Longrightarrow> \<not> py_isspace c"
  by (auto simp: py_isdigit_def py_isspace_def Let_def)

lemma takeWhile_hd_last:
  "takeWhile P xs \<noteq> [] \<Longrightarrow> P (hd (takeWhile P xs)) \<and> P (last (takeWhile P xs))"
proof -
  assume ne: "takeWhile P xs \<noteq> []"
  then have "hd (takeWhile P xs) \<in> set (takeWhile P xs)"
    and "last (takeWhile P xs) \<in> set (takeWhile P xs)" by simp_all
  then show ?thesis by (auto dest: set_takeWhileD)
qed

lemma match_number_ends:
  assumes "match_number s = Some (n, r)"
  shows "n \<noteq> [] \<and> py_isdigit (hd n) \<and> py_isdigit (last n)"
proof -
  let ?ds = "takeWhile py_isdigit s"
  from assms have ne: "?ds \<noteq> []" by (auto simp: match_number_def Let_def split: if_splits)
  note d = takeWhile_hd_last[OF ne]
  from assms ne consider (plain) "n = ?ds"
    | (frac) r' where "n = ?ds @ [CHR ''.''] @ takeWhile py_isdigit r'"
        "takeWhile py_isdigit r' \<noteq> []"
    by (auto simp: match_number_def Let_def split: if_splits list.splits)
  then show ?thesis
  proof cases
    case plain
    with ne d show ?thesis by simp
  next
    case frac
    from takeWhile_hd_last[OF frac(2)] frac ne d show ?thesis by simp
  qed
qed

lemma percent_not_space: "\<not> py_isspace CHR ''%''"
  by (simp add: py_isspace_def)

lemma match_value_token_trimmed:
  assumes "match_value_token s = Some t"
  shows "trimmed t"
proof -
  from assms obtain n r where m: "match_number s = Some (n, r)"
    and t: "t = n \<or> t = n @ [CHR ''%'']"
    by (auto simp: match_value_token_def split: option.splits list.splits if_splits)
  from match_number_ends[OF m] have "n \<noteq> []" "\<not> py_isspace (hd n)" "\<not> py_isspace (last n)"
    by (auto dest: digit_not_space)
  with t show ?thesis by (auto simp: trimmed_def percent_not_space)
qed

lemma search_value_token_trimmed:
  "search_value_token s = Some t \<Longrightarrow> trimmed t"
  by (induction s) (auto split: option.splits dest: match_value_token_trimmed)

lemma lazy_extract_trimmed: "lazy_extract lr soup = Some t \<Longrightarrow> trimmed t"
  by (auto simp: lazy_extract_def get_text_strip_trimmed split: option.splits prod.splits
        dest: search_value_token_trimmed)

lemma call_extractor_trimmed:
  "call_extractor w ex soup = Inr (PyStr raw) \<Longrightarrow> trimmed raw"
proof (cases ex)
  case (LazyExtractor lr)
  assume "call_extractor w ex soup = Inr (PyStr raw)"
  with LazyExtractor have "lazy_extract lr soup = Some raw"
    by (cases "lazy_extract lr soup") simp_all
  then show ?thesis by (rule lazy_extract_trimmed)
qed (auto simp: extract_by_selector_def get_text_strip_trimmed split: selected.splits)

lemma fetch_raw_trimmed:
  "fst (fetch_raw cls w) = Inr (PyStr raw) \<Longrightarrow> trimmed raw"
  by (auto simp: fetch_raw_def fetch_soup_def split: option.splits if_splits
        dest: call_extractor_trimmed)

lemma whole_number_is_first_token:
  "match_whole_number s = Some g \<Longrightarrow> search_signed_number s = Some g"
  by (cases s) (auto simp: match_whole_number_def Let_def match_signed_number_def
        split: option.splits if_splits list.splits)


lemma span_all:
  assumes "\<forall>c \<in> set xs. P c" and "rest = [] \<or> \<not> P (hd rest)"
  shows "takeWhile P (xs @ rest) = xs \<and> dropWhile P (xs @ rest) = rest"
proof -
  from assms(2) have "takeWhile P rest = [] \<and> dropWhile P rest = rest"
    by (cases rest) auto
  with assms(1) show ?thesis by (simp add: takeWhile_append dropWhile_append)
qed

lemma not_digit_chars: "\<not> py_isdigit CHR ''.''" "\<not> py_isdigit CHR ''%''" "\<not> py_isdigit CHR ''-''"
  by (simp_all add: py_isdigit_def)

lemma match_number_shape:
  assumes ip: "ip \<noteq> []" "\<forall>c \<in> set ip. py_isdigit c"
    and fp: "fp = [] \<or> (\<exists>fd. fp = CHR ''.'' # fd \<and> fd \<noteq> [] \<and> (\<forall>c \<in> set fd. py_isdigit c))"
    and pct: "pct = [] \<or> pct = ''%''"
  shows "match_number (ip @ fp @ pct) = Some (ip @ fp, pct)"
proof -
  from fp pct have "fp @ pct = [] \<or> \<not> py_isdigit (hd (fp @ pct))"
    by (auto simp: not_digit_chars)
  from span_all[OF ip(2) this]
  have tk: "takeWhile py_isdigit (ip @ fp @ pct) = ip"
    and dr: "dropWhile py_isdigit (ip @ fp @ pct) = fp @ pct" by simp_all
  from fp show ?thesis
  proof
    assume "fp = []"
    with tk dr ip(1) pct show ?thesis
      by (auto simp: match_number_def Let_def)
  next
    assume "\<exists>fd. fp = CHR ''.'' # fd \<and> fd \<noteq> [] \<and> (\<forall>c \<in> set fd. py_isdigit c)"
    then obtain fd where fd: "fp = CHR ''.'' # fd" "fd \<noteq> []" "\<forall>c \<in> set fd. py_isdigit c"
      by blast
    from pct have "pct = [] \<or> \<not> py_isdigit (hd pct)" by (auto simp: not_digit_chars)
    from span_all[OF fd(3) this]
    have "takeWhile py_isdigit (fd @ pct) = fd" "dropWhile py_isdigit (fd @ pct) = pct"
      by simp_all
    with tk dr ip(1) fd show ?thesis
      by (simp add: match_number_def Let_def)
  qed
qed

lemma shape_matches_at_start:
  assumes "spec_number_shape s num"
  shows "\<exists>r. match_signed_number s = Some (num, r)"
proof -
  from assms obtain sign ip fp pct where
    s: "s = sign @ ip @ fp @ pct" and num: "num = sign @ ip @ fp"
    and sign: "sign = [] \<or> sign = ''-''"
    and ip: "ip \<noteq> []" "\<forall>c \<in> set ip. py_isdigit c"
    and fp: "fp = [] \<or> (\<exists>fd. fp = CHR ''.'' # fd \<and> fd \<noteq> [] \<and> (\<forall>c \<in> set fd. py_isdigit c))"
    and pct: "pct = [] \<or> pct = ''%''"
    unfolding spec_number_shape_def by blast
  note m = match_number_shape[OF ip fp pct]
  from ip obtain d ds where ipc: "ip = d # ds" and d: "py_isdigit d" by (cases ip) auto
  from d have dm: "d \<noteq> CHR ''-''" using not_digit_chars(3) by auto
  from sign have "match_signed_number s = Some (num, pct)"
  proof
    assume "sign = []"
    with s num m ipc dm show ?thesis by (simp add: match_signed_number_def)
  next
    assume "sign = ''-''"
    with s num m show ?thesis by (simp add: match_signed_number_def)
  qed
  then show ?thesis by blast
qed

lemma shape_is_first_token:
  assumes "spec_number_shape s num"
  shows "search_signed_number s = Some num"
proof -
  from shape_matches_at_start[OF assms] obtain r where
    m: "match_signed_number s = Some (num, r)" by blast
  then have "s \<noteq> []" by (auto simp: match_signed_number_def)
  with m show ?thesis by (cases s) simp_all
qed

lemma coerce_first_token:
  "coerce raw =
     (case search_signed_number (py_strip raw) of
        Some g \<Rightarrow> PyFloat g
      | None \<Rightarrow> PyStr (py_strip raw))"
proof (cases "match_whole_number (py_strip raw)")
  case None
  then show ?thesis by (simp add: coerce_def Let_def)
next
  case (Some g)
  from whole_number_is_first_token[OF this] Some show ?thesis
    by (simp add: coerce_def Let_def)
qed

text \<open>
  Claim C3. For every raw string that \<open>fetch_raw\<close> returns, \<open>get_value\<close> returns the
  float of the string without its percent sign when the trimmed string is, as a whole, an
  optional minus sign, digits, an optional decimal fraction and an optional trailing
  percent sign; otherwise the float of the first numeric token in the string when there is
  one; otherwise the raw string unchanged. When \<open>fetch_raw\<close> returns \<open>None\<close>, so does
  \<open>get_value\<close>. Nothing is fetched beyond what \<open>fetch_raw\<close> fetches.
\<close>

theorem get_value_coerces_raw_string:
  "(fst (fetch_raw cls w) = Inr PyNone \<longrightarrow> fst (get_value cls w) = Inr PyNone)
   \<and> (fst (fetch_raw cls w) = Inr (PyStr raw) \<longrightarrow>
        (spec_number_shape (py_strip raw) num \<longrightarrow> fst (get_value cls w) = Inr (PyFloat num))
        \<and> ((\<forall>n. \<not> spec_number_shape (py_strip raw) n) \<and> search_signed_number raw = Some t
             \<longrightarrow> fst (get_value cls w) = Inr (PyFloat t))
        \<and> ((\<forall>n. \<not> spec_number_shape (py_strip raw) n) \<and> search_signed_number raw = None
             \<longrightarrow> fst (get_value cls w) = Inr (PyStr raw)))
   \<and> snd (get_value cls w) = snd (fetch_raw cls w)"
proof -
  have none: "fst (get_value cls w) = Inr PyNone" if "fst (fetch_raw cls w) = Inr PyNone"
    using that by (cases "fetch_raw cls w") (simp add: get_value_def)
  have world: "snd (get_value cls w) = snd (fetch_raw cls w)"
    by (cases "fetch_raw cls w") (auto simp: get_value_def split: sum.splits pyobj.splits)
  have str: "(spec_number_shape (py_strip raw) num \<longrightarrow> fst (get_value cls w) = Inr (PyFloat num))
        \<and> ((\<forall>n. \<not> spec_number_shape (py_strip raw) n) \<and> search_signed_number raw = Some t
             \<longrightarrow> fst (get_value cls w) = Inr (PyFloat t))
        \<and> ((\<forall>n. \<not> spec_number_shape (py_strip raw) n) \<and> search_signed_number raw = None
             \<longrightarrow> fst (get_value cls w) = Inr (PyStr raw))"
    if r: "fst (fetch_raw cls w) = Inr (PyStr raw)"
  proof -
    from r have gv: "fst (get_value cls w) = Inr (coerce raw)"
      by (cases "fetch_raw cls w") (simp add: get_value_def)
    from fetch_raw_trimmed[OF r] have st: "py_strip raw = raw" by (rule strip_trimmed)
    have a: "fst (get_value cls w) = Inr (PyFloat num)" if "spec_number_shape (py_strip raw) num"
      using shape_is_first_token[OF that] gv by (simp add: coerce_first_token)
    have b: "fst (get_value cls w) = Inr (PyFloat t)" if "search_signed_number raw = Some t"
      using that gv st by (simp add: coerce_first_token)
    have c: "fst (get_value cls w) = Inr (PyStr raw)" if "search_signed_number raw = None"
      using that gv st by (simp add: coerce_first_token)
    from a b c show ?thesis by blast
  qed
  from none world str show ?thesis by blast
qed


lemma match_number_None: "match_number s = None \<longleftrightarrow> (s = [] \<or> \<not> py_isdigit (hd s))"
  by (cases s) (auto simp: match_number_def Let_def split: list.splits)

lemma match_signed_None_no_digit:
  "match_signed_number (c # cs) = None \<Longrightarrow> \<not> py_isdigit c"
  by (auto simp: match_signed_number_def match_number_None not_digit_chars
        split: if_splits option.splits)

text \<open>No numeric token is found exactly in the strings without a digit.\<close>

lemma search_signed_number_None_iff:
  "search_signed_number s = None \<longleftrightarrow> (\<forall>c \<in> set s. \<not> py_isdigit c)"
proof (induction s)
  case Nil
  then show ?case by simp
next
  case (Cons c cs)
  show ?case
  proof
    assume n: "search_signed_number (c # cs) = None"
    then have m: "match_signed_number (c # cs) = None" and "search_signed_number cs = None"
      by (auto split: option.splits)
    with Cons.IH match_signed_None_no_digit[OF m] show "\<forall>x \<in> set (c # cs). \<not> py_isdigit x"
      by simp
  next
    assume a: "\<forall>x \<in> set (c # cs). \<not> py_isdigit x"
    then have "match_number (c # cs) = None" by (simp add: match_number_None)
    moreover from a have "match_number cs = None" by (cases cs) (simp_all add: match_number_None)
    ultimately have "match_signed_number (c # cs) = None"
      by (simp add: match_signed_number_def)
    with a Cons.IH show "search_signed_number (c # cs) = None" by simp
  qed
qed

text \<open>
  The theorem at the raw strings \<open>43%\<close>, \<open>1.25\<close>, \<open>Rank: 7th\<close> and \<open>N/A\<close>, each shown
  by a page and read through a selector, and at a page on which the lazy extractor finds
  no value; with the exact values of the tokens handed to \<open>float\<close>.
\<close>

theorem get_value_coerces_raw_string_witness:
  "fst (get_value (sample_metric ''Ball possession'' (BySelector ''b'') RequestsScraper)
          (serving (page_showing ''43%''))) = Inr (PyFloat ''43'')
   \<and> decimal_value ''43'' = 43
   \<and> fst (get_value (sample_metric ''Average goals'' (BySelector ''b'') RequestsScraper)
          (serving (page_showing ''1.25''))) = Inr (PyFloat ''1.25'')
   \<and> decimal_value ''1.25'' = 5 / 4
   \<and> fst (get_value (sample_metric ''Rank'' (BySelector ''b'') RequestsScraper)
          (serving (page_showing ''Rank: 7th''))) = Inr (PyFloat ''7'')
   \<and> decimal_value ''7'' = 7
   \<and> fst (get_value (sample_metric ''Form'' (BySelector ''b'') RequestsScraper)
          (serving (page_showing ''N/A''))) = Inr (PyStr ''N/A'')
   \<and> fst (get_value (sample_metric ''Ball possession'' (LazyExtractor BallPossession) RequestsScraper)
          (serving label_only_page)) = Inr PyNone"
proof -
  have r1: "fst (fetch_raw (sample_metric ''Ball possession'' (BySelector ''b'') RequestsScraper)
          (serving (page_showing ''43%''))) = Inr (PyStr ''43%'')" by code_simp
  have s1: "py_strip ''43%'' = ''43%''" by code_simp
  have "spec_number_shape ''43%'' ''43''"
    unfolding spec_number_shape_def
    by (rule exI[of _ "[]"], rule exI[of _ "''43''"], rule exI[of _ "[]"], rule exI[of _ "''%''"])
       (simp add: py_isdigit_def)
  with s1 have sh1: "spec_number_shape (py_strip ''43%'') ''43''" by simp
  from get_value_coerces_raw_string[of _ _ "''43%''" "''43''"] r1 sh1
  have p1: "fst (get_value (sample_metric ''Ball possession'' (BySelector ''b'') RequestsScraper)
          (serving (page_showing ''43%''))) = Inr (PyFloat ''43'')" by blast
  have r2: "fst (fetch_raw (sample_metric ''Average goals'' (BySelector ''b'') RequestsScraper)
          (serving (page_showing ''1.25''))) = Inr (PyStr ''1.25'')" by code_simp
  have s2: "py_strip ''1.25'' = ''1.25''" by code_simp
  have "spec_number_shape ''1.25'' ''1.25''"
    unfolding spec_number_shape_def
    by (rule exI[of _ "[]"], rule exI[of _ "''1''"], rule exI[of _ "''.25''"], rule exI[of _ "[]"])
       (simp add: py_isdigit_def)
  with s2 have sh2: "spec_number_shape (py_strip ''1.25'') ''1.25''" by simp
  from get_value_coerces_raw_string[of _ _ "''1.25''" "''1.25''"] r2 sh2
  have p2: "fst (get_value (sample_metric ''Average goals'' (BySelector ''b'') RequestsScraper)
          (serving (page_showing ''1.25''))) = Inr (PyFloat ''1.25'')" by blast
  have r3: "fst (fetch_raw (sample_metric ''Rank'' (BySelector ''b'') RequestsScraper)
          (serving (page_showing ''Rank: 7th''))) = Inr (PyStr ''Rank: 7th'')" by code_simp
  have s3: "py_strip ''Rank: 7th'' = ''Rank: 7th''" by code_simp
  have m3: "match_signed_number ''Rank: 7th'' = None" by code_simp
  have n3: "\<forall>n. \<not> spec_number_shape (py_strip ''Rank: 7th'') n"
    using shape_matches_at_start[of "''Rank: 7th''"] m3 s3 by auto
  have t3: "search_signed_number ''Rank: 7th'' = Some ''7''" by code_simp
  from get_value_coerces_raw_string[of _ _ "''Rank: 7th''" _ "''7''"] r3 n3 t3
  have p3: "fst (get_value (sample_metric ''Rank'' (BySelector ''b'') RequestsScraper)
          (serving (page_showing ''Rank: 7th''))) = Inr (PyFloat ''7'')" by blast
  have r4: "fst (fetch_raw (sample_metric ''Form'' (BySelector ''b'') RequestsScraper)
          (serving (page_showing ''N/A''))) = Inr (PyStr ''N/A'')" by code_simp
  have s4: "py_strip ''N/A'' = ''N/A''" by code_simp
  have m4: "match_signed_number ''N/A'' = None" by code_simp
  have n4: "\<forall>n. \<not> spec_number_shape (py_strip ''N/A'') n"
    using shape_matches_at_start[of "''N/A''"] m4 s4 by auto
  have t4: "search_signed_number ''N/A'' = None" by code_simp
  from get_value_coerces_raw_string[of _ _ "''N/A''"] r4 n4 t4
  have p4: "fst (get_value (sample_metric ''Form'' (BySelector ''b'') RequestsScraper)
          (serving (page_showing ''N/A''))) = Inr (PyStr ''N/A'')" by blast
  have r5: "fst (fetch_raw (sample_metric ''Ball possession'' (LazyExtractor BallPossession) RequestsScraper)
          (serving label_only_page)) = Inr PyNone" by code_simp
  from get_value_coerces_raw_string[of
      "sample_metric ''Ball possession'' (LazyExtractor BallPossession) RequestsScraper"
      "serving label_only_page"] r5
  have p5: "fst (get_value (sample_metric ''Ball possession'' (LazyExtractor BallPossession) RequestsScraper)
          (serving label_only_page)) = Inr PyNone" by blast
  have d1: "decimal_value ''43'' = 43" by code_simp
  have d2: "decimal_value ''1.25'' = 5 / 4" by code_simp
  have d3: "decimal_value ''7'' = 7" by code_simp
  from p1 p2 p3 p4 p5 d1 d2 d3 show ?thesis by blast
qed

end
